theory Spec2Isabelle
  imports Main "HOL-Library.Word" "HOL-Library.Sublist" "HOL-Library.Log_Nat"
begin

section \<open>Values held in a Go interface\<close>

text \<open>
  A value of type \<^verbatim>\<open>interface{}\<close> is either nil or a pair of a dynamic type and a
  value of that type. The dynamic types the template helpers distinguish are listed
  one by one; a \<^verbatim>\<open>float64\<close> is carried as its IEEE-754 bit pattern, a Go
  \<^verbatim>\<open>int\<close> as a 64-bit word. \<open>VInt32\<close> and \<open>VSlice\<close> stand for the dynamic types
  that none of the type switches of the package name.
\<close>

datatype go_value =
    VNil
  | VString string
  | VInt "64 word"
  | VInt64 "64 word"
  | VFloat64 "64 word"
  | VBool bool
  | VInt32 "32 word"
  | VSlice "go_value list"

text \<open>
  \<^verbatim>\<open>v == 0\<close> for \<^verbatim>\<open>v\<close> of interface type: the untyped constant is converted to
  its default type \<^verbatim>\<open>int\<close> before it is put in an interface, and two interface
  values are equal only when their dynamic types are identical and the values equal.
\<close>

fun iface_eq_const :: "go_value \<Rightarrow> 64 word \<Rightarrow> bool" where
  "iface_eq_const (VInt n) c = (n = c)"
| "iface_eq_const _ c = False"

text \<open>
  \<^verbatim>\<open>Default\<close> of funcs.go. In the case that lists \<^verbatim>\<open>int, int64, float64\<close> the
  switch variable keeps the interface type of \<^verbatim>\<open>value\<close>, so the test is the
  interface comparison above.
\<close>

definition Default :: "go_value \<Rightarrow> go_value \<Rightarrow> go_value" where
  "Default defaultValue val =
     (case val of
        VString v \<Rightarrow> if v = [] then defaultValue else val
      | VInt _ \<Rightarrow> if iface_eq_const val 0 then defaultValue else val
      | VInt64 _ \<Rightarrow> if iface_eq_const val 0 then defaultValue else val
      | VFloat64 _ \<Rightarrow> if iface_eq_const val 0 then defaultValue else val
      | VBool v \<Rightarrow> if \<not> v then defaultValue else val
      | VNil \<Rightarrow> defaultValue
      | _ \<Rightarrow> val)"

section \<open>IEEE-754 double precision, as far as the formatting helpers use it\<close>

text \<open>
  A \<^verbatim>\<open>float64\<close> is its bit pattern: sign bit 63, biased exponent in bits 62 to 52,
  fraction in bits 51 to 0.
\<close>

definition f64_neg :: "64 word \<Rightarrow> bool" where
  "f64_neg w = bit w 63"

definition f64_exp :: "64 word \<Rightarrow> int" where
  "f64_exp w = uint (take_bit 11 (drop_bit 52 w))"

definition f64_frac :: "64 word \<Rightarrow> int" where
  "f64_frac w = uint (take_bit 52 w)"

definition f64_isNaN :: "64 word \<Rightarrow> bool" where
  "f64_isNaN w = (f64_exp w = 2047 \<and> f64_frac w \<noteq> 0)"

definition f64_isInf :: "64 word \<Rightarrow> bool" where
  "f64_isInf w = (f64_exp w = 2047 \<and> f64_frac w = 0)"

definition pow2 :: "int \<Rightarrow> rat" where
  "pow2 k = (if 0 \<le> k then 2 ^ nat k else 1 / 2 ^ nat (- k))"

text \<open>The magnitude and the value of a finite \<^verbatim>\<open>float64\<close>, as rational numbers.\<close>

definition f64_mag :: "64 word \<Rightarrow> rat" where
  "f64_mag w =
     (if f64_exp w = 0 then of_int (f64_frac w) * pow2 (- 1074)
      else of_int (2 ^ 52 + f64_frac w) * pow2 (f64_exp w - 1075))"

definition f64_val :: "64 word \<Rightarrow> rat" where
  "f64_val w = (if f64_neg w then - f64_mag w else f64_mag w)"

text \<open>The bit pattern with the given sign and the given exponent and fraction bits.\<close>

definition f64_bits :: "bool \<Rightarrow> int \<Rightarrow> 64 word" where
  "f64_bits s n = (if s then word_of_int (2 ^ 63 + n) else word_of_int n)"

definition f64_NaN :: "64 word" where
  "f64_NaN = f64_bits False (2047 * 2 ^ 52 + 2 ^ 51)"

definition f64_Inf :: "bool \<Rightarrow> 64 word" where
  "f64_Inf s = f64_bits s (2047 * 2 ^ 52)"

text \<open>Rounding a rational to the nearest integer, a tie to the even one.\<close>

definition round_half_even :: "rat \<Rightarrow> int" where
  "round_half_even q =
     (let f = \<lfloor>q\<rfloor>; r = q - of_int f
      in if r < 1 / 2 then f
         else if 1 / 2 < r then f + 1
         else if even f then f else f + 1)"

text \<open>\<open>ilog2 q\<close> is the \<open>e\<close> with \<open>2 ^ e \<le> q < 2 ^ (e + 1)\<close>, for \<open>0 < q\<close>.\<close>

definition ilog2 :: "rat \<Rightarrow> int" where
  "ilog2 q =
     (let e0 = bitlen (fst (quotient_of q)) - bitlen (snd (quotient_of q))
      in if pow2 e0 \<le> q then e0 else e0 - 1)"

text \<open>
  The \<^verbatim>\<open>float64\<close> nearest to a magnitude \<open>0 \<le> q\<close>, a tie to the even fraction
  (the rounding of every arithmetic operation and of a constant's conversion). The
  exponent is that of \<open>q\<close>, not below the subnormal one; the fraction is \<open>q\<close> in units
  of the last place, rounded; a fraction that rounds up to \<open>2 ^ 53\<close> carries into the
  exponent, and past the largest exponent the result is an infinity.
\<close>

definition f64_round :: "bool \<Rightarrow> rat \<Rightarrow> 64 word" where
  "f64_round s q =
     (if q = 0 then f64_bits s 0
      else let e = max (ilog2 q) (- 1022);
               m = round_half_even (q / pow2 (e - 52));
               n = (e + 1022) * 2 ^ 52 + m
           in if 2047 * 2 ^ 52 \<le> n then f64_Inf s else f64_bits s n)"

text \<open>A numeric constant of the source, converted to \<^verbatim>\<open>float64\<close>.\<close>

definition f64_const :: "rat \<Rightarrow> 64 word" where
  "f64_const q = f64_round (q < 0) \<bar>q\<bar>"

text \<open>\<^verbatim>\<open>a >= b\<close> on \<^verbatim>\<open>float64\<close>: false when an operand is a NaN.\<close>

definition f64_ge :: "64 word \<Rightarrow> 64 word \<Rightarrow> bool" where
  "f64_ge a b =
     (if f64_isNaN a \<or> f64_isNaN b then False
      else if f64_isInf a then (if f64_neg a then f64_isInf b \<and> f64_neg b else True)
      else if f64_isInf b then f64_neg b
      else f64_val b \<le> f64_val a)"

text \<open>\<^verbatim>\<open>a / b\<close> on \<^verbatim>\<open>float64\<close>.\<close>

definition f64_div :: "64 word \<Rightarrow> 64 word \<Rightarrow> 64 word" where
  "f64_div a b =
     (let s = (f64_neg a \<noteq> f64_neg b)
      in if f64_isNaN a \<or> f64_isNaN b then f64_NaN
         else if f64_isInf a then (if f64_isInf b then f64_NaN else f64_Inf s)
         else if f64_isInf b then f64_bits s 0
         else if f64_mag b = 0 then (if f64_mag a = 0 then f64_NaN else f64_Inf s)
         else f64_round s (f64_mag a / f64_mag b))"

section \<open>The fmt package, as far as the formatting helpers use it\<close>

definition digit :: "int \<Rightarrow> char" where
  "digit d = char_of (48 + d)"

function decimal :: "int \<Rightarrow> string" where
  "decimal n = (if n < 10 then [digit n] else decimal (n div 10) @ [digit (n mod 10)])"
  by pat_completeness auto
termination
  by (relation "measure nat") auto

declare decimal.simps [simp del]

text \<open>
  \<^verbatim>\<open>fmt.Sprintf("%.2f", x)\<close>: the exact value of \<open>x\<close> rounded to two decimals, a tie
  to the even digit; the sign is printed for a negative zero too.
\<close>

definition Sprintf_2f :: "64 word \<Rightarrow> string" where
  "Sprintf_2f x =
     (if f64_isNaN x then ''NaN''
      else if f64_isInf x then (if f64_neg x then ''-Inf'' else ''+Inf'')
      else let n = round_half_even (f64_mag x * 100)
           in (if f64_neg x then ''-'' else []) @ decimal (n div 100) @ ''.''
                @ [digit (n mod 100 div 10), digit (n mod 10)])"

section \<open>The formatting helpers\<close>

definition FormatCurrency :: "64 word \<Rightarrow> string" where
  "FormatCurrency val =
     (if f64_ge val (f64_const 1000000)
      then ''$'' @ Sprintf_2f (f64_div val (f64_const 1000000)) @ ''M''
      else if f64_ge val (f64_const 1000)
      then ''$'' @ Sprintf_2f (f64_div val (f64_const 1000)) @ ''K''
      else ''$'' @ Sprintf_2f val)"

section \<open>The strings package, as far as the generator uses it\<close>

text \<open>
  \<^verbatim>\<open>strings.Index(s, substr)\<close>: the index of the first occurrence, \<open>None\<close> for
  Go's \<^verbatim>\<open>-1\<close>.
\<close>

fun strings_Index :: "string \<Rightarrow> string \<Rightarrow> nat option" where
  "strings_Index [] substr = (if substr = [] then Some 0 else None)"
| "strings_Index (c # cs) substr =
     (if prefix substr (c # cs) then Some 0
      else map_option Suc (strings_Index cs substr))"

definition strings_Contains :: "string \<Rightarrow> string \<Rightarrow> bool" where
  "strings_Contains s substr = (strings_Index s substr \<noteq> None)"

lemma strings_Index_bound:
  "strings_Index s sep = Some i \<Longrightarrow> i + length sep \<le> length s"
proof (induction s arbitrary: i)
  case Nil
  then show ?case by (simp split: if_splits)
next
  case (Cons c cs)
  show ?case
  proof (cases "prefix sep (c # cs)")
    case True
    then have "length sep \<le> length (c # cs)" by (rule prefix_length_le)
    with True Cons.prems show ?thesis by simp
  next
    case False
    with Cons.prems obtain j where "strings_Index cs sep = Some j" "i = Suc j"
      by auto
    with Cons.IH show ?thesis by fastforce
  qed
qed

text \<open>
  \<^verbatim>\<open>strings.Split(s, sep)\<close>: the pieces of \<open>s\<close> between the occurrences of
  \<open>sep\<close>, found from the left. With an empty separator Go cuts after every UTF-8
  sequence; the generator only splits at \<^verbatim>\<open>","\<close>, and for the empty separator
  the model cuts after every byte.
\<close>

function strings_Split :: "string \<Rightarrow> string \<Rightarrow> string list" where
  "strings_Split s sep =
     (if sep = [] then map (\<lambda>c. [c]) s
      else case strings_Index s sep of
             None \<Rightarrow> [s]
           | Some i \<Rightarrow> take i s # strings_Split (drop (i + length sep) s) sep)"
  by pat_completeness auto
termination
proof (relation "measure (\<lambda>(s, sep). length s)")
  show "wf (measure (\<lambda>(s, sep). length s))" by simp
next
  fix s sep :: string and i :: nat
  assume "sep \<noteq> []" and "strings_Index s sep = Some i"
  then have "0 < length sep" and "i + length sep \<le> length s"
    using strings_Index_bound by auto
  then have "length s - (i + length sep) < length s" by arith
  then show "((drop (i + length sep) s, sep), (s, sep)) \<in> measure (\<lambda>(s, sep). length s)"
    by simp
qed

declare strings_Split.simps [simp del]

section \<open>The reflect package, as far as the generator uses it\<close>

text \<open>\<^verbatim>\<open>reflect.Kind\<close> and its \<^verbatim>\<open>String\<close> method.\<close>

datatype Kind =
    KInvalid | KBool | KInt | KInt8 | KInt16 | KInt32 | KInt64
  | KUint | KUint8 | KUint16 | KUint32 | KUint64 | KUintptr
  | KFloat32 | KFloat64 | KComplex64 | KComplex128
  | KArray | KChan | KFunc | KInterface | KMap | KPtr | KSlice
  | KString | KStruct | KUnsafePointer

fun Kind_String :: "Kind \<Rightarrow> string" where
  "Kind_String KInvalid = ''invalid''"
| "Kind_String KBool = ''bool''"
| "Kind_String KInt = ''int''"
| "Kind_String KInt8 = ''int8''"
| "Kind_String KInt16 = ''int16''"
| "Kind_String KInt32 = ''int32''"
| "Kind_String KInt64 = ''int64''"
| "Kind_String KUint = ''uint''"
| "Kind_String KUint8 = ''uint8''"
| "Kind_String KUint16 = ''uint16''"
| "Kind_String KUint32 = ''uint32''"
| "Kind_String KUint64 = ''uint64''"
| "Kind_String KUintptr = ''uintptr''"
| "Kind_String KFloat32 = ''float32''"
| "Kind_String KFloat64 = ''float64''"
| "Kind_String KComplex64 = ''complex64''"
| "Kind_String KComplex128 = ''complex128''"
| "Kind_String KArray = ''array''"
| "Kind_String KChan = ''chan''"
| "Kind_String KFunc = ''func''"
| "Kind_String KInterface = ''interface''"
| "Kind_String KMap = ''map''"
| "Kind_String KPtr = ''ptr''"
| "Kind_String KSlice = ''slice''"
| "Kind_String KString = ''string''"
| "Kind_String KStruct = ''struct''"
| "Kind_String KUnsafePointer = ''unsafe.Pointer''"

text \<open>
  A struct tag, read through \<^verbatim>\<open>StructTag.Get\<close>: the conventional
  \<^verbatim>\<open>key:"value"\<close> pairs in the order they are written. \<^verbatim>\<open>Lookup\<close> returns the
  value of the first pair with the key, \<^verbatim>\<open>Get\<close> the empty string when there is
  none.
\<close>

type_synonym StructTag = "(string \<times> string) list"

definition Tag_Lookup :: "StructTag \<Rightarrow> string \<Rightarrow> string option" where
  "Tag_Lookup tag key = map_of tag key"

definition Tag_Get :: "StructTag \<Rightarrow> string \<Rightarrow> string" where
  "Tag_Get tag key = (case Tag_Lookup tag key of None \<Rightarrow> [] | Some v \<Rightarrow> v)"

text \<open>
  \<^verbatim>\<open>reflect.Type\<close> with the methods the generator calls (\<^verbatim>\<open>Kind\<close>, \<^verbatim>\<open>Name\<close>,
  \<^verbatim>\<open>String\<close>, \<^verbatim>\<open>Elem\<close>, \<^verbatim>\<open>NumField\<close>, \<^verbatim>\<open>Field\<close>) and
  \<^verbatim>\<open>reflect.StructField\<close> with \<^verbatim>\<open>Name\<close>, \<^verbatim>\<open>PkgPath\<close>, \<^verbatim>\<open>Type\<close> and
  \<^verbatim>\<open>Tag\<close>. \<open>rElem\<close> is the element type of a pointer, slice, array, channel or map.
\<close>

datatype rtype =
  RType (rKind: Kind) (rName: string) (rString: string) (rElem: "rtype option")
    (rFields: "StructField list")
and StructField =
  StructField (fName: string) (fPkgPath: string) (fType: rtype) (fTag: StructTag)

definition NumField :: "rtype \<Rightarrow> nat" where
  "NumField typ = length (rFields typ)"

definition Field :: "rtype \<Rightarrow> nat \<Rightarrow> StructField" where
  "Field typ i = rFields typ ! i"

text \<open>\<^verbatim>\<open>StructField.IsExported\<close>: the package path is empty for an exported field.\<close>

definition IsExported :: "StructField \<Rightarrow> bool" where
  "IsExported f = (fPkgPath f = [])"

section \<open>The documentation generator\<close>

text \<open>The results of a Go call: a value, an error, or a run-time panic.\<close>

datatype go_error =
    ErrorString string
  | LoadError string go_error
  | RenderError string go_error

datatype 'a result = Ok 'a | Err go_error | Panic string

record FieldDoc =
  Name :: string
  JSONName :: string
  Type :: string
  Description :: string
  Example :: go_value
  Required :: bool

record TypeDoc =
  Name :: string
  Description :: string
  Fields :: "FieldDoc list"

definition extractJSONName :: "StructField \<Rightarrow> string" where
  "extractJSONName field =
     (let tag = Tag_Get (fTag field) ''json''
      in if tag = [] then []
         else let parts = strings_Split tag '','' in parts ! 0)"

definition extractFieldDoc :: "StructField \<Rightarrow> string" where
  "extractFieldDoc field =
     (let doc = Tag_Get (fTag field) ''doc''
      in if doc \<noteq> [] then doc
         else let desc = Tag_Get (fTag field) ''description''
              in if desc \<noteq> [] then desc else [])"

definition extractExample :: "StructField \<Rightarrow> go_value" where
  "extractExample field =
     (let example = Tag_Get (fTag field) ''example''
      in if example \<noteq> [] then VString example else VString [])"

definition isRequired :: "StructField \<Rightarrow> bool" where
  "isRequired field =
     (let schema = Tag_Get (fTag field) ''schema''
      in strings_Contains schema ''required'')"

definition extractTypeDoc :: "rtype \<Rightarrow> string" where
  "extractTypeDoc typ = []"

text \<open>The \<^verbatim>\<open>FieldDoc\<close> literal in the loop body of \<^verbatim>\<open>Generate\<close>.\<close>

definition fieldDoc_of :: "StructField \<Rightarrow> FieldDoc" where
  "fieldDoc_of field =
     \<lparr> FieldDoc.Name = fName field,
       JSONName = extractJSONName field,
       Type = rString (fType field),
       FieldDoc.Description = extractFieldDoc field,
       Example = extractExample field,
       Required = isRequired field \<rparr>"

text \<open>
  The loop \<^verbatim>\<open>for i := 0; i < typ.NumField(); i++\<close> of \<^verbatim>\<open>Generate\<close>, with
  \<^verbatim>\<open>doc.Fields\<close> as the accumulator; an unexported field takes the
  \<^verbatim>\<open>continue\<close>.
\<close>

function Generate_loop :: "rtype \<Rightarrow> nat \<Rightarrow> FieldDoc list \<Rightarrow> FieldDoc list" where
  "Generate_loop typ i docFields =
     (if i < NumField typ
      then (let field = Field typ i
            in if \<not> IsExported field then Generate_loop typ (i + 1) docFields
               else Generate_loop typ (i + 1) (docFields @ [fieldDoc_of field]))
      else docFields)"
  by pat_completeness auto
termination
  by (relation "measure (\<lambda>(typ, i, docFields). NumField typ - i)") auto

declare Generate_loop.simps [simp del]

text \<open>
  \<^verbatim>\<open>Generate(v interface{})\<close>. Of \<open>v\<close> the function reads the dynamic type only
  (\<^verbatim>\<open>val.Elem()\<close> is computed and never used), so the argument is
  \<^verbatim>\<open>reflect.TypeOf(v)\<close>: \<open>None\<close> for the nil interface, whose \<^verbatim>\<open>Kind()\<close> call
  dereferences a nil \<^verbatim>\<open>reflect.Type\<close> and panics. Every pointer type has an
  element type; a type descriptor of kind pointer without one is not a Go type, and
  \<^verbatim>\<open>Elem\<close> is made to panic on it.
\<close>

definition Generate :: "rtype option \<Rightarrow> TypeDoc result" where
  "Generate v =
     (case v of
        None \<Rightarrow> Panic ''invalid memory address or nil pointer dereference''
      | Some typ0 \<Rightarrow>
          (case (if rKind typ0 = KPtr then rElem typ0 else Some typ0) of
             None \<Rightarrow> Panic ''reflect: Elem of invalid type''
           | Some typ \<Rightarrow>
               if rKind typ \<noteq> KStruct
               then Err (ErrorString (''expected struct, got '' @ Kind_String (rKind typ)))
               else Ok \<lparr> TypeDoc.Name = rName typ,
                         TypeDoc.Description = extractTypeDoc typ,
                         Fields = Generate_loop typ 0 [] \<rparr>))"

section \<open>Markdown export\<close>






section \<open>The Jet engine\<close>

text \<open>
  \<^verbatim>\<open>Template\<close> of types.go. The field \<open>jet\<close> is a pointer to the compiled
  \<^verbatim>\<open>jet.Template\<close>: \<open>None\<close> for nil, otherwise the address of the compiled
  template.
\<close>

record Template =
  Name :: string
  Path :: string
  Content :: string
  jet :: "nat option"

record JetOptions =
  TemplateDir :: string
  DevelopmentMode :: bool

text \<open>
  The engine and what it reaches: the template set with its development flag, its
  cache and its globals, the compiled templates the set has allocated, the directory
  the loader reads (with a log of the reads), the registry \<open>funcs\<close>, and the
  \<^verbatim>\<open>Template\<close> values \<^verbatim>\<open>Load\<close> has allocated. A callable is named by the Go
  function it is; \<open>'p\<close> is a compiled program.
\<close>

record 'p JetEngine =
  templateDir :: string
  developmentMode :: bool
  files :: "string \<rightharpoonup> string"
  reads :: "string list"
  cache :: "string \<rightharpoonup> nat"
  compiled :: "nat \<rightharpoonup> 'p"
  globals :: "string \<rightharpoonup> string"
  funcs :: "string \<rightharpoonup> string"
  templates :: "nat \<rightharpoonup> Template"
  nextAddr :: nat

definition AddGlobal :: "string \<Rightarrow> string \<Rightarrow> 'p JetEngine \<Rightarrow> 'p JetEngine" where
  "AddGlobal key fn e = e\<lparr>globals := (globals e)(key \<mapsto> fn)\<rparr>"

definition registerDefaultFuncs :: "'p JetEngine \<Rightarrow> 'p JetEngine" where
  "registerDefaultFuncs e =
     fold (\<lambda>(key, fn). AddGlobal key fn)
       [(''formatCurrency'', ''FormatCurrency''), (''formatPercent'', ''FormatPercent''),
        (''formatFloat'', ''FormatFloat''), (''colorCode'', ''ColorCode''),
        (''trendIndicator'', ''TrendIndicator''), (''isBullish'', ''IsBullish''),
        (''isBearish'', ''IsBearish''), (''isOverbought'', ''IsOverbought''),
        (''isOversold'', ''IsOversold''), (''join'', ''JoinFloats''),
        (''joinFloats'', ''JoinFloats''), (''joinInts'', ''JoinInts''),
        (''joinStrings'', ''JoinStrings''), (''toJSON'', ''ToJSON''),
        (''toJSONPretty'', ''ToJSONPretty''), (''range'', ''RangeFormat''),
        (''default'', ''Default''), (''multiply'', ''Multiply''), (''divide'', ''Divide''),
        (''add'', ''Add''), (''subtract'', ''Subtract''), (''abs'', ''Abs''),
        (''min'', ''Min''), (''max'', ''Max'')] e"

text \<open>
  \<^verbatim>\<open>NewJetEngine(opts)\<close>; \<open>dir\<close> is the content of the template directory the loader
  is created on, \<open>addr\<close> the first free address.
\<close>

definition NewJetEngine :: "JetOptions \<Rightarrow> (string \<rightharpoonup> string) \<Rightarrow> nat \<Rightarrow> 'p JetEngine" where
  "NewJetEngine opts dir addr =
     registerDefaultFuncs
       \<lparr> templateDir = (if TemplateDir opts = [] then ''./templates'' else TemplateDir opts),
         developmentMode = DevelopmentMode opts,
         files = dir, reads = [], cache = Map.empty, compiled = Map.empty,
         globals = Map.empty, funcs = Map.empty, templates = Map.empty,
         nextAddr = addr \<rparr>"

definition AddFunc :: "string \<Rightarrow> string \<Rightarrow> 'p JetEngine \<Rightarrow> 'p JetEngine" where
  "AddFunc name fn e = AddGlobal name fn (e\<lparr>funcs := (funcs e)(name \<mapsto> fn)\<rparr>)"

text \<open>
  Modelled from the spec: \<^verbatim>\<open>jet.Set.GetTemplate\<close> of the third-party library
  github.com/CloudyKit/jet, whose source is not part of the repository. Section 4.1: in
  non-development mode a cache hit returns the stored compiled template without touching
  the source, a miss reads the source bytes, compiles, stores and returns the result; in
  development mode every call re-reads and re-compiles, ignoring any cached entry, and
  nothing is cached; an unreadable source or a compile failure is an error and does not
  populate the cache. \<open>parse\<close> compiles a source text.
\<close>

definition GetTemplate ::
  "(string \<Rightarrow> string \<Rightarrow> go_error + 'p) \<Rightarrow> 'p JetEngine \<Rightarrow> string \<Rightarrow> 'p JetEngine \<times> (go_error + nat)"
where
  "GetTemplate parse e path =
     (case (if developmentMode e then None else cache e path) of
        Some t \<Rightarrow> (e, Inr t)
      | None \<Rightarrow>
          (let e1 = e\<lparr>reads := reads e @ [path]\<rparr>
           in case files e path of
                None \<Rightarrow> (e1, Inl (ErrorString (''template '' @ path @ '' could not be found'')))
              | Some src \<Rightarrow>
                  (case parse path src of
                     Inl err \<Rightarrow> (e1, Inl err)
                   | Inr prog \<Rightarrow>
                       (let t = nextAddr e1;
                            e2 = e1\<lparr>compiled := (compiled e1)(t \<mapsto> prog), nextAddr := t + 1\<rparr>;
                            e3 = (if developmentMode e then e2
                                  else e2\<lparr>cache := (cache e2)(path \<mapsto> t)\<rparr>)
                        in (e3, Inr t)))))"

text \<open>
  \<^verbatim>\<open>Load(path)\<close> of the engine. The composite literal \<^verbatim>\<open>&Template{...}\<close> allocates
  a new variable on every call; the pointer returned is its address. The result is the
  pair Go returns: the pointer (\<open>None\<close> for nil) and the error (\<open>None\<close> for nil).
\<close>

definition Load ::
  "(string \<Rightarrow> string \<Rightarrow> go_error + 'p) \<Rightarrow> 'p JetEngine \<Rightarrow> string
     \<Rightarrow> 'p JetEngine \<times> nat option \<times> go_error option"
where
  "Load parse e path =
     (case GetTemplate parse e path of
        (e1, Inl err) \<Rightarrow> (e1, None, Some (LoadError path err))
      | (e1, Inr tmpl) \<Rightarrow>
          (let a = nextAddr e1;
               new = \<lparr> Template.Name = path, Path = path, Content = [], jet = Some tmpl \<rparr>
           in (e1\<lparr>templates := (templates e1)(a \<mapsto> new), nextAddr := a + 1\<rparr>, Some a, None)))"

text \<open>
  \<^verbatim>\<open>Render(tmpl, data)\<close>. The pointer \<open>tmpl\<close> is given by what it points to,
  \<open>None\<close> for nil. \<open>Execute\<close> stands for \<^verbatim>\<open>jet.Template.Execute\<close> of the
  library, run on the compiled template at the address in \<open>jet\<close>; what it wrote to
  the buffer is dropped when it fails.
\<close>

definition Render ::
  "(nat \<Rightarrow> 'd \<Rightarrow> go_error + string) \<Rightarrow> Template option \<Rightarrow> 'd \<Rightarrow> string \<times> go_error option"
where
  "Render Execute tmpl data =
     (case tmpl of
        None \<Rightarrow> ([], Some (ErrorString ''invalid template''))
      | Some t \<Rightarrow>
          (case jet t of
             None \<Rightarrow> ([], Some (ErrorString ''invalid template''))
           | Some j \<Rightarrow>
               (case Execute j data of
                  Inl err \<Rightarrow> ([], Some (RenderError (Template.Name t) err))
                | Inr out \<Rightarrow> (out, None))))"

section \<open>Example inputs\<close>

definition T_string :: rtype where
  "T_string = RType KString ''string'' ''string'' None []"

definition T_float64 :: rtype where
  "T_float64 = RType KFloat64 ''float64'' ''float64'' None []"

definition T_bool :: rtype where
  "T_bool = RType KBool ''bool'' ''bool'' None []"

definition T_int :: rtype where
  "T_int = RType KInt ''int'' ''int'' None []"

text \<open>
  The struct of the generator's test, with an unexported field and schema tags added,
  and a pointer type.
\<close>

definition TestStruct :: rtype where
  "TestStruct = RType KStruct ''TestStruct'' ''template.TestStruct'' None
     [StructField ''Name'' [] T_string
        [(''json'', ''name''), (''doc'', ''User name''), (''example'', ''Alice'')],
      StructField ''secret'' ''template'' T_int [],
      StructField ''Balance'' [] T_float64
        [(''json'', ''balance,omitempty''), (''doc'', ''Account balance''),
         (''example'', ''1000.50''), (''schema'', ''required,min=0'')],
      StructField ''Active'' [] T_bool
        [(''json'', '',omitempty''), (''description'', ''Is active''),
         (''schema'', ''notrequired'')]]"

text \<open>The documentation \<^verbatim>\<open>Generate\<close> returns for the struct.\<close>

definition TestStruct_doc :: TypeDoc where
  "TestStruct_doc = \<lparr> TypeDoc.Name = ''TestStruct'', TypeDoc.Description = [],
     Fields = [
       \<lparr> FieldDoc.Name = ''Name'', JSONName = ''name'', Type = ''string'',
         FieldDoc.Description = ''User name'', Example = VString ''Alice'', Required = False \<rparr>,
       \<lparr> FieldDoc.Name = ''Balance'', JSONName = ''balance'', Type = ''float64'',
         FieldDoc.Description = ''Account balance'', Example = VString ''1000.50'',
         Required = True \<rparr>,
       \<lparr> FieldDoc.Name = ''Active'', JSONName = [], Type = ''bool'',
         FieldDoc.Description = ''Is active'', Example = VString [], Required = True \<rparr>] \<rparr>"

definition PtrTo :: "rtype \<Rightarrow> rtype" where
  "PtrTo t = RType KPtr [] (CHR ''*'' # rString t) (Some t) []"


text \<open>
  The engine of the examples: a directory with one template file, and a parser that
  accepts every source and takes the source text as the compiled program.
\<close>

definition Parse0 :: "string \<Rightarrow> string \<Rightarrow> go_error + string" where
  "Parse0 path src = Inr src"

definition Engine0 :: "bool \<Rightarrow> string JetEngine" where
  "Engine0 dev = NewJetEngine \<lparr> TemplateDir = ''tpl'', DevelopmentMode = dev \<rparr>
     [''test.jet'' \<mapsto> ''Hello, {{.Name}}!''] 0"

section \<open>The lines of a text and the rows of a Markdown table\<close>









section \<open>Default\<close>

lemma Default_zero_cases:
  "Default d (VString []) = d" "Default d (VInt 0) = d"
  "Default d (VBool False) = d" "Default d VNil = d"
  by (simp_all add: Default_def)

lemma Default_unlisted_kind:
  "Default d (VInt32 n) = VInt32 n" "Default d (VSlice vs) = VSlice vs"
  by (simp_all add: Default_def)

lemma Default_returns_default_iff:
  "Default d v = d \<longleftrightarrow> v = d \<or> v = VString [] \<or> v = VInt 0 \<or> v = VBool False \<or> v = VNil"
  by (cases v) (auto simp: Default_def)

text \<open>
  C1. \<^verbatim>\<open>Default(defaultValue, value)\<close> is meant to return the default for the zero
  of every numeric kind, \<^verbatim>\<open>float64\<close> and \<^verbatim>\<open>int64\<close> included. On the code a
  \<^verbatim>\<open>float64\<close> zero (bit pattern 0) and an \<^verbatim>\<open>int64\<close> zero are returned unchanged,
  the default is not substituted.
\<close>

theorem Default_float64_zero_kept:
  "Default (VString ''N/A'') (VFloat64 0) = VFloat64 0
   \<and> Default (VString ''N/A'') (VInt64 0) = VInt64 0"
  by (simp add: Default_def)

section \<open>Facts about the formatting helpers\<close>

text \<open>The rounding is to a nearest integer, and leaves an integer as it is.\<close>

lemma round_half_even_bound: "\<bar>of_int (round_half_even q) - q\<bar> \<le> 1 / 2"
proof -
  have "of_int \<lfloor>q\<rfloor> \<le> q" "q < of_int \<lfloor>q\<rfloor> + 1" by linarith+
  then show ?thesis
    by (auto simp: round_half_even_def Let_def abs_le_iff)
qed

lemma round_half_even_int: "round_half_even (of_int n) = n"
  by (simp add: round_half_even_def)

text \<open>
  The conversion and the division give the bit patterns Go gives, and the formatting
  rounds the exact binary value: \<open>2.675\<close> is below the tie as a \<^verbatim>\<open>float64\<close>,
  \<open>0.125\<close> and \<open>0.375\<close> are exact ties.
\<close>

lemma f64_known_patterns:
  "f64_const 1 = 0x3FF0000000000000"
  "f64_const (1 / 10) = 0x3FB999999999999A"
  "f64_const (1 / 3) = 0x3FD5555555555555"
  "f64_const (- 2) = 0xC000000000000000"
  "f64_const 1000000 = 0x412E848000000000"
  "f64_const (9999 / 100) = 0x4058FF5C28F5C28F"
  "f64_Inf False = 0x7FF0000000000000"
  "f64_div (f64_const 1) (f64_const 3) = 0x3FD5555555555555"
  by code_simp+

lemma Sprintf_2f_ties:
  "Sprintf_2f (f64_const (2675 / 1000)) = ''2.67''"
  "Sprintf_2f (f64_const (1 / 8)) = ''0.12''"
  "Sprintf_2f (f64_const (3 / 8)) = ''0.38''"
  by code_simp+

text \<open>Values outside the three examples: not a number, the infinities, a negative
  amount, and an amount just below a million that rounds up in the \<open>K\<close> branch.\<close>

lemma FormatCurrency_edge_values:
  "FormatCurrency f64_NaN = ''$NaN''"
  "FormatCurrency (f64_Inf False) = ''$+InfM''"
  "FormatCurrency (f64_Inf True) = ''$-Inf''"
  "FormatCurrency (f64_const (- 5)) = ''$-5.00''"
  "FormatCurrency (f64_const (999999999 / 1000)) = ''$1000.00K''"
  by code_simp+

text \<open>The two thresholds are exact as \<^verbatim>\<open>float64\<close> constants.\<close>

lemma f64_const_thresholds:
  "f64_val (f64_const 1000000) = 1000000" "f64_val (f64_const 1000) = 1000"
  "\<not> f64_isNaN (f64_const 1000000)" "\<not> f64_isInf (f64_const 1000000)"
  "\<not> f64_isNaN (f64_const 1000)" "\<not> f64_isInf (f64_const 1000)"
  by code_simp+

lemma f64_ge_finite:
  assumes "\<not> f64_isNaN a" "\<not> f64_isInf a" "\<not> f64_isNaN b" "\<not> f64_isInf b"
  shows "f64_ge a b \<longleftrightarrow> f64_val b \<le> f64_val a"
  using assms by (simp add: f64_ge_def)

lemma FormatCurrency_examples:
  "FormatCurrency (f64_const 1500000) = ''$1.50M''"
  "FormatCurrency (f64_const 5500) = ''$5.50K''"
  "FormatCurrency (f64_const (9999 / 100)) = ''$99.99''"
  by code_simp+

lemma FormatCurrency_test_inputs:
  "f64_ge (f64_const 1500000) (f64_const 1000000)"
  "f64_ge (f64_const (125005 / 10)) (f64_const 1000)"
  "\<not> f64_ge (f64_const (125005 / 10)) (f64_const 1000000)"
  "Sprintf_2f (f64_div (f64_const (125005 / 10)) (f64_const 1000)) = ''12.50''"
  "\<not> f64_ge (f64_const (9999 / 100)) (f64_const 1000)"
  "\<not> f64_ge (f64_const (9999 / 100)) (f64_const 1000000)"
  "\<not> f64_isNaN (f64_const (9999 / 100))" "\<not> f64_isInf (f64_const (9999 / 100))"
  by code_simp+

text \<open>
  C7. \<^verbatim>\<open>FormatCurrency(v)\<close> is \<open>$\<close>, then \<open>v / 1e6\<close> with two decimals and
  \<open>M\<close> when \<open>v \<ge> 1e6\<close>, else \<open>v / 1e3\<close> with two decimals and \<open>K\<close> when
  \<open>v \<ge> 1e3\<close>, else \<open>v\<close> with two decimals; for a finite \<open>v\<close> the two
  comparisons are those of the exact values. The three examples of the tests come out as
  stated.
\<close>

theorem FormatCurrency_cases:
  "(f64_ge v (f64_const 1000000) \<longrightarrow>
      FormatCurrency v = ''$'' @ Sprintf_2f (f64_div v (f64_const 1000000)) @ ''M'')
   \<and> (\<not> f64_ge v (f64_const 1000000) \<and> f64_ge v (f64_const 1000) \<longrightarrow>
      FormatCurrency v = ''$'' @ Sprintf_2f (f64_div v (f64_const 1000)) @ ''K'')
   \<and> (\<not> f64_ge v (f64_const 1000000) \<and> \<not> f64_ge v (f64_const 1000) \<longrightarrow>
      FormatCurrency v = ''$'' @ Sprintf_2f v)
   \<and> (\<not> f64_isNaN v \<and> \<not> f64_isInf v \<longrightarrow>
      (f64_ge v (f64_const 1000000) \<longleftrightarrow> 1000000 \<le> f64_val v)
      \<and> (f64_ge v (f64_const 1000) \<longleftrightarrow> 1000 \<le> f64_val v))
   \<and> FormatCurrency (f64_const 1500000) = ''$1.50M''
   \<and> FormatCurrency (f64_const 5500) = ''$5.50K''
   \<and> FormatCurrency (f64_const (9999 / 100)) = ''$99.99''"
proof -
  have 1: "f64_ge v (f64_const 1000000) \<longrightarrow>
      FormatCurrency v = ''$'' @ Sprintf_2f (f64_div v (f64_const 1000000)) @ ''M''"
    by (simp add: FormatCurrency_def)
  have 2: "\<not> f64_ge v (f64_const 1000000) \<and> f64_ge v (f64_const 1000) \<longrightarrow>
      FormatCurrency v = ''$'' @ Sprintf_2f (f64_div v (f64_const 1000)) @ ''K''"
    by (simp add: FormatCurrency_def)
  have 3: "\<not> f64_ge v (f64_const 1000000) \<and> \<not> f64_ge v (f64_const 1000) \<longrightarrow>
      FormatCurrency v = ''$'' @ Sprintf_2f v"
    by (simp add: FormatCurrency_def)
  have 4: "\<not> f64_isNaN v \<and> \<not> f64_isInf v \<longrightarrow>
      (f64_ge v (f64_const 1000000) \<longleftrightarrow> 1000000 \<le> f64_val v)
      \<and> (f64_ge v (f64_const 1000) \<longleftrightarrow> 1000 \<le> f64_val v)"
    by (simp add: f64_ge_finite f64_const_thresholds)
  from 1 2 3 4 FormatCurrency_examples show ?thesis by blast
qed

theorem FormatCurrency_cases_witness:
  "f64_ge (f64_const 1500000) (f64_const 1000000)
   \<and> FormatCurrency (f64_const 1500000)
       = ''$'' @ Sprintf_2f (f64_div (f64_const 1500000) (f64_const 1000000)) @ ''M''
   \<and> f64_ge (f64_const (125005 / 10)) (f64_const 1000)
   \<and> \<not> f64_ge (f64_const (125005 / 10)) (f64_const 1000000)
   \<and> FormatCurrency (f64_const (125005 / 10)) = ''$12.50K''
   \<and> \<not> f64_ge (f64_const (9999 / 100)) (f64_const 1000)
   \<and> \<not> f64_ge (f64_const (9999 / 100)) (f64_const 1000000)
   \<and> FormatCurrency (f64_const (9999 / 100)) = ''$'' @ Sprintf_2f (f64_const (9999 / 100))
   \<and> \<not> f64_isNaN (f64_const (9999 / 100)) \<and> \<not> f64_isInf (f64_const (9999 / 100))
   \<and> \<not> 1000 \<le> f64_val (f64_const (9999 / 100))"
  using FormatCurrency_cases [of "f64_const 1500000"]
    FormatCurrency_cases [of "f64_const (125005 / 10)"]
    FormatCurrency_cases [of "f64_const (9999 / 100)"]
    FormatCurrency_test_inputs
  by simp

section \<open>Facts about the string helpers\<close>

lemma strings_Index_None_iff:
  "strings_Index s substr = None \<longleftrightarrow> \<not> sublist substr s"
  by (induction s) (auto simp: sublist_Cons_right)

lemma strings_Contains_sublist: "strings_Contains s substr \<longleftrightarrow> sublist substr s"
  by (simp add: strings_Contains_def strings_Index_None_iff)

lemma strings_Index_single:
  "strings_Index s [c] =
     (if c \<in> set s then Some (length (takeWhile (\<lambda>x. x \<noteq> c) s)) else None)"
  by (induction s) auto

text \<open>Splitting at a one-byte separator: the first piece is the text before its first
  occurrence, so \<^verbatim>\<open>parts[0]\<close> is always in range.\<close>

lemma strings_Split_single_hd:
  "\<exists>rest. strings_Split s [c] = takeWhile (\<lambda>x. x \<noteq> c) s # rest"
proof (cases "c \<in> set s")
  case True
  then show ?thesis
    by (subst strings_Split.simps)
      (simp add: strings_Index_single takeWhile_eq_take[symmetric])
next
  case False
  then have tw: "takeWhile (\<lambda>x. x \<noteq> c) s = s" by auto
  show ?thesis
    by (subst strings_Split.simps) (simp add: strings_Index_single False tw)
qed

lemma extractJSONName_takeWhile:
  "extractJSONName f = takeWhile (\<lambda>c. c \<noteq> CHR '','') (Tag_Get (fTag f) ''json'')"
proof -
  obtain rest where "strings_Split (Tag_Get (fTag f) ''json'') '','' =
      takeWhile (\<lambda>c. c \<noteq> CHR '','') (Tag_Get (fTag f) ''json'') # rest"
    using strings_Split_single_hd by blast
  then show ?thesis by (simp add: extractJSONName_def Let_def)
qed

section \<open>Facts about the generator\<close>

text \<open>The loop appends the documentation of the exported fields from index \<open>i\<close> on,
  in their order.\<close>

lemma Generate_loop_eq:
  "Generate_loop t i acc = acc @ map fieldDoc_of (filter IsExported (drop i (rFields t)))"
proof (induction t i acc rule: Generate_loop.induct)
  case (1 t i acc)
  show ?case
  proof (cases "i < NumField t")
    case True
    then have d: "drop i (rFields t) = Field t i # drop (Suc i) (rFields t)"
      by (simp add: NumField_def Field_def Cons_nth_drop_Suc)
    show ?thesis
    proof (cases "IsExported (Field t i)")
      case True
      with 1 \<open>i < NumField t\<close> d show ?thesis
        by (subst Generate_loop.simps) simp
    next
      case False
      with 1 \<open>i < NumField t\<close> d show ?thesis
        by (subst Generate_loop.simps) simp
    qed
  next
    case False
    then show ?thesis
      by (subst Generate_loop.simps) (simp add: NumField_def)
  qed
qed

lemma Generate_struct:
  assumes "rKind t = KStruct"
    and "v = Some t \<or> (\<exists>p. rKind p = KPtr \<and> rElem p = Some t \<and> v = Some p)"
  shows "Generate v = Ok \<lparr> TypeDoc.Name = rName t, TypeDoc.Description = [],
           Fields = map fieldDoc_of (filter IsExported (rFields t)) \<rparr>"
  using assms by (auto simp: Generate_def Generate_loop_eq extractTypeDoc_def)

text \<open>A value that is not nil and whose type, after one pointer step, is not a struct
  gets the error.\<close>

lemma Generate_not_struct:
  "rKind t \<noteq> KPtr \<Longrightarrow> rKind t \<noteq> KStruct \<Longrightarrow>
     Generate (Some t) = Err (ErrorString (''expected struct, got '' @ Kind_String (rKind t)))"
  "rKind p = KPtr \<Longrightarrow> rElem p = Some t \<Longrightarrow> rKind t \<noteq> KStruct \<Longrightarrow>
     Generate (Some p) = Err (ErrorString (''expected struct, got '' @ Kind_String (rKind t)))"
  by (simp_all add: Generate_def)

lemmas example_types = T_string_def T_float64_def T_bool_def T_int_def

lemma Generate_TestStruct: "Generate (Some TestStruct) = Ok TestStruct_doc"
  by (simp add: Generate_def Generate_loop_eq TestStruct_def TestStruct_doc_def example_types
      IsExported_def
      fieldDoc_of_def extractJSONName_takeWhile extractFieldDoc_def extractExample_def
      isRequired_def extractTypeDoc_def Tag_Get_def Tag_Lookup_def strings_Contains_def)

text \<open>
  C2. The claim: \<open>JSONName\<close> is empty exactly when the field has no json tag, and is
  the non-empty first comma-delimited segment of the tag otherwise. It fails for a tag
  whose value starts with a comma: the field \<open>Active\<close> of the example struct carries
  \<^verbatim>\<open>json:",omitempty"\<close> and gets the empty \<open>JSONName\<close>.
\<close>

theorem JSONName_empty_with_tag:
  "Tag_Lookup (fTag (Field TestStruct 3)) ''json'' = Some '',omitempty''
   \<and> JSONName (fieldDoc_of (Field TestStruct 3)) = []
   \<and> map JSONName (Fields (TestStruct_doc)) = [''name'', ''balance'', []]
   \<and> Generate (Some TestStruct) = Ok TestStruct_doc"
  by (simp add: Generate_TestStruct)
    (simp add: TestStruct_def TestStruct_doc_def Field_def Tag_Lookup_def fieldDoc_of_def
      extractJSONName_takeWhile Tag_Get_def)

text \<open>
  C2, amended. For every struct field, \<open>JSONName\<close> is the first comma-delimited
  segment of the value of the json tag (the text before its first comma), and the empty
  string when the field has no json tag; it is empty exactly when the json tag is absent,
  has the empty value, or has a value that starts with a comma.
\<close>

theorem JSONName_first_segment:
  "JSONName (fieldDoc_of f) = takeWhile (\<lambda>c. c \<noteq> CHR '','') (Tag_Get (fTag f) ''json'')
   \<and> (Tag_Lookup (fTag f) ''json'' = None \<longrightarrow> JSONName (fieldDoc_of f) = [])
   \<and> (JSONName (fieldDoc_of f) = [] \<longleftrightarrow>
        Tag_Lookup (fTag f) ''json'' = None \<or> Tag_Lookup (fTag f) ''json'' = Some []
        \<or> (\<exists>opts. Tag_Lookup (fTag f) ''json'' = Some (CHR '','' # opts)))"
proof -
  have 1: "JSONName (fieldDoc_of f) = takeWhile (\<lambda>c. c \<noteq> CHR '','') (Tag_Get (fTag f) ''json'')"
    by (simp add: fieldDoc_of_def extractJSONName_takeWhile)
  have 2: "Tag_Lookup (fTag f) ''json'' = None \<longrightarrow> JSONName (fieldDoc_of f) = []"
    by (simp add: 1 Tag_Get_def)
  have 3: "JSONName (fieldDoc_of f) = [] \<longleftrightarrow>
        Tag_Lookup (fTag f) ''json'' = None \<or> Tag_Lookup (fTag f) ''json'' = Some []
        \<or> (\<exists>opts. Tag_Lookup (fTag f) ''json'' = Some (CHR '','' # opts))"
  proof (cases "Tag_Lookup (fTag f) ''json''")
    case None
    then show ?thesis by (simp add: 1 Tag_Get_def)
  next
    case (Some v)
    then show ?thesis by (cases v) (auto simp: 1 Tag_Get_def)
  qed
  from 1 2 3 show ?thesis by blast
qed

theorem JSONName_first_segment_witness:
  "JSONName (fieldDoc_of (Field TestStruct 2)) = ''balance''
   \<and> Tag_Lookup (fTag (Field TestStruct 1)) ''json'' = None
   \<and> JSONName (fieldDoc_of (Field TestStruct 1)) = []"
  using JSONName_first_segment [of "Field TestStruct 2"]
    JSONName_first_segment [of "Field TestStruct 1"]
  by (simp add: TestStruct_def Field_def Tag_Lookup_def Tag_Get_def)

text \<open>
  C3. The claim: a nil input gets an error result, not a panic. On the code
  \<^verbatim>\<open>reflect.TypeOf(nil)\<close> is the nil type, and \<^verbatim>\<open>typ.Kind()\<close> on it panics
  before any error is built.
\<close>

theorem Generate_nil_panics:
  "Generate None = Panic ''invalid memory address or nil pointer dereference''
   \<and> (\<forall>err. Generate None \<noteq> Err err)"
  by (simp add: Generate_def)

text \<open>
  C4. For a struct, or a pointer to one, \<^verbatim>\<open>Generate\<close> returns one \<open>FieldDoc\<close> for
  each exported field, in declaration order, and none for an unexported field.
\<close>

theorem Generate_one_FieldDoc_per_exported_field:
  assumes "rKind t = KStruct"
    and "v = Some t \<or> (\<exists>p. rKind p = KPtr \<and> rElem p = Some t \<and> v = Some p)"
  shows "\<exists>doc. Generate v = Ok doc
           \<and> Fields doc = map fieldDoc_of (filter IsExported (rFields t))
           \<and> map FieldDoc.Name (Fields doc) = map fName (filter IsExported (rFields t))
           \<and> length (Fields doc) = length (filter IsExported (rFields t))"
proof -
  let ?fs = "map fieldDoc_of (filter IsExported (rFields t))"
  have n: "map FieldDoc.Name ?fs = map fName (filter IsExported (rFields t))"
    by (simp add: fieldDoc_of_def comp_def)
  from Generate_struct [OF assms] n show ?thesis by simp
qed

theorem Generate_one_FieldDoc_per_exported_field_witness:
  "rKind TestStruct = KStruct
   \<and> length (rFields TestStruct) = 4
   \<and> length (filter IsExported (rFields TestStruct)) = 3
   \<and> (\<exists>doc. Generate (Some (PtrTo TestStruct)) = Ok doc
         \<and> map FieldDoc.Name (Fields doc) = [''Name'', ''Balance'', ''Active'']
         \<and> length (Fields doc) = 3)"
proof -
  have k: "rKind TestStruct = KStruct" by (simp add: TestStruct_def)
  have p: "Some (PtrTo TestStruct) = Some TestStruct
     \<or> (\<exists>p. rKind p = KPtr \<and> rElem p = Some TestStruct \<and> Some (PtrTo TestStruct) = Some p)"
    by (simp add: PtrTo_def)
  have f: "map fName (filter IsExported (rFields TestStruct)) = [''Name'', ''Balance'', ''Active'']"
    by (simp add: TestStruct_def IsExported_def)
  have l: "length (rFields TestStruct) = 4" by (simp add: TestStruct_def)
  from Generate_one_FieldDoc_per_exported_field [OF k p] f l k show ?thesis
    by (metis length_map list.size(3) list.size(4) One_nat_def numeral_3_eq_3 add.commute plus_1_eq_Suc)
qed

text \<open>
  C5. \<open>Required\<close> is true exactly when the raw text of the field's schema tag
  contains \<open>required\<close> as a substring; with no schema tag it is false. This holds
  for every \<open>FieldDoc\<close> that \<^verbatim>\<open>Generate\<close> returns.
\<close>

theorem Required_iff_schema_contains_required:
  "(Required (fieldDoc_of f) \<longleftrightarrow>
      (\<exists>raw pre suf. Tag_Lookup (fTag f) ''schema'' = Some raw \<and> raw = pre @ ''required'' @ suf))
   \<and> (Tag_Lookup (fTag f) ''schema'' = None \<longrightarrow> \<not> Required (fieldDoc_of f))
   \<and> (rKind t = KStruct \<longrightarrow>
        (\<exists>doc. Generate (Some t) = Ok doc
           \<and> map Required (Fields doc) =
               map (\<lambda>f. sublist ''required'' (Tag_Get (fTag f) ''schema''))
                 (filter IsExported (rFields t))))"
proof -
  have r: "Required (fieldDoc_of g) \<longleftrightarrow> sublist ''required'' (Tag_Get (fTag g) ''schema'')" for g
    by (simp add: fieldDoc_of_def isRequired_def strings_Contains_sublist)
  have 1: "Required (fieldDoc_of f) \<longleftrightarrow>
      (\<exists>raw pre suf. Tag_Lookup (fTag f) ''schema'' = Some raw \<and> raw = pre @ ''required'' @ suf)"
  proof (cases "Tag_Lookup (fTag f) ''schema''")
    case None
    then show ?thesis by (simp add: r Tag_Get_def)
  next
    case (Some raw)
    then show ?thesis by (simp add: r Tag_Get_def sublist_def)
  qed
  have 2: "Tag_Lookup (fTag f) ''schema'' = None \<longrightarrow> \<not> Required (fieldDoc_of f)"
    using 1 by simp
  have 3: "rKind t = KStruct \<longrightarrow>
        (\<exists>doc. Generate (Some t) = Ok doc
           \<and> map Required (Fields doc) =
               map (\<lambda>f. sublist ''required'' (Tag_Get (fTag f) ''schema''))
                 (filter IsExported (rFields t)))"
  proof
    assume "rKind t = KStruct"
    then have "Generate (Some t) = Ok \<lparr> TypeDoc.Name = rName t, TypeDoc.Description = [],
           Fields = map fieldDoc_of (filter IsExported (rFields t)) \<rparr>"
      by (simp add: Generate_struct)
    then show "\<exists>doc. Generate (Some t) = Ok doc
           \<and> map Required (Fields doc) =
               map (\<lambda>f. sublist ''required'' (Tag_Get (fTag f) ''schema''))
                 (filter IsExported (rFields t))"
      by (simp add: r comp_def)
  qed
  from 1 2 3 show ?thesis by blast
qed

theorem Required_iff_schema_contains_required_witness:
  "Tag_Lookup (fTag (Field TestStruct 0)) ''schema'' = None
   \<and> \<not> Required (fieldDoc_of (Field TestStruct 0))
   \<and> Tag_Lookup (fTag (Field TestStruct 3)) ''schema'' = Some ''notrequired''
   \<and> Required (fieldDoc_of (Field TestStruct 3))
   \<and> rKind TestStruct = KStruct
   \<and> (\<exists>doc. Generate (Some TestStruct) = Ok doc
         \<and> map Required (Fields doc) = [False, True, True])"
proof -
  have a: "Tag_Lookup (fTag (Field TestStruct 0)) ''schema'' = None"
    by (simp add: TestStruct_def Field_def Tag_Lookup_def)
  have b: "Tag_Lookup (fTag (Field TestStruct 3)) ''schema'' = Some ''notrequired''"
    by (simp add: TestStruct_def Field_def Tag_Lookup_def)
  have c: "''notrequired'' = ''not'' @ ''required'' @ []" by simp
  have k: "rKind TestStruct = KStruct" by (simp add: TestStruct_def)
  have n: "\<not> Required (fieldDoc_of (Field TestStruct 0))"
    using Required_iff_schema_contains_required [of "Field TestStruct 0" TestStruct] a by simp
  have y: "Required (fieldDoc_of (Field TestStruct 3))"
    using Required_iff_schema_contains_required [of "Field TestStruct 3" TestStruct] b c
    by blast
  have g: "\<exists>doc. Generate (Some TestStruct) = Ok doc
         \<and> map Required (Fields doc) = [False, True, True]"
    by (simp add: Generate_TestStruct TestStruct_doc_def)
  from a b k n y g show ?thesis by blast
qed

section \<open>Facts about the Markdown export\<close>













section \<open>Facts about the engine\<close>

text \<open>A successful lookup in the set, in the two modes.\<close>

lemma GetTemplate_cached:
  assumes "\<not> developmentMode e" and "GetTemplate parse e path = (e1, Inr t)"
  shows "cache e1 path = Some t \<and> \<not> developmentMode e1 \<and> templates e1 = templates e"
  using assms
  by (auto simp: GetTemplate_def Let_def split: option.splits sum.splits)

lemma GetTemplate_hit:
  assumes "\<not> developmentMode e" and "cache e path = Some t"
  shows "GetTemplate parse e path = (e, Inr t)"
  using assms by (simp add: GetTemplate_def)

lemma GetTemplate_development:
  assumes "developmentMode e" and "GetTemplate parse e path = (e1, Inr t)"
  shows "t = nextAddr e \<and> nextAddr e1 = nextAddr e + 1 \<and> reads e1 = reads e @ [path]
     \<and> developmentMode e1 \<and> templates e1 = templates e"
  using assms
  by (auto simp: GetTemplate_def Let_def split: option.splits sum.splits)

lemma Load_ok:
  assumes "Load parse e path = (e2, Some p, None)"
  shows "\<exists>e1 t. GetTemplate parse e path = (e1, Inr t) \<and> p = nextAddr e1
     \<and> e2 = e1\<lparr>templates := (templates e1)(p \<mapsto>
          \<lparr> Template.Name = path, Path = path, Content = [], jet = Some t \<rparr>),
          nextAddr := p + 1\<rparr>"
  using assms
  by (auto simp: Load_def Let_def split: prod.splits sum.splits)

lemma Engine0_mode: "developmentMode (Engine0 dev) = dev"
  by (simp add: Engine0_def NewJetEngine_def registerDefaultFuncs_def AddGlobal_def)

lemma Load_Engine0_first:
  "snd (Load Parse0 (Engine0 dev) ''test.jet'') = (Some 1, None)"
  by (simp add: Engine0_def Parse0_def NewJetEngine_def registerDefaultFuncs_def AddGlobal_def
      Load_def GetTemplate_def Let_def)

lemma Load_Engine0_second:
  "snd (Load Parse0 (fst (Load Parse0 (Engine0 dev) ''test.jet'')) ''test.jet'')
     = (Some (if dev then 3 else 2), None)"
  by (simp add: Engine0_def Parse0_def NewJetEngine_def registerDefaultFuncs_def AddGlobal_def
      Load_def GetTemplate_def Let_def)

text \<open>
  C8. The claim: in non-development mode two calls of \<^verbatim>\<open>Load\<close> with the same path
  return the same instance by identity. On the code the two pointers differ: the first
  call returns address 1, the second address 2 (address 0 holds the compiled template).
\<close>

theorem Load_twice_distinct_pointers:
  "\<not> developmentMode (Engine0 False)
   \<and> fst (snd (Load Parse0 (Engine0 False) ''test.jet'')) = Some 1
   \<and> snd (snd (Load Parse0 (Engine0 False) ''test.jet'')) = None
   \<and> fst (snd (Load Parse0 (fst (Load Parse0 (Engine0 False) ''test.jet'')) ''test.jet''))
       = Some 2
   \<and> snd (snd (Load Parse0 (fst (Load Parse0 (Engine0 False) ''test.jet'')) ''test.jet''))
       = None"
  by (simp add: Engine0_mode Load_Engine0_first Load_Engine0_second)

text \<open>
  C8, amended. In non-development mode, two successful calls of \<^verbatim>\<open>Load\<close> with the
  same path return two distinct \<open>Template\<close> instances that are equal field by field
  (name and path the requested path) and hold the same compiled template by identity, and
  the second call does not read the source. In development mode each call reads the
  source, and the two instances hold distinct compiled templates.
\<close>

theorem Load_twice:
  assumes "Load parse e path = (e1, Some p1, None)"
    and "Load parse e1 path = (e2, Some p2, None)"
  shows "p1 \<noteq> p2
    \<and> (\<exists>t1 t2. templates e2 p1 = Some t1 \<and> templates e2 p2 = Some t2
         \<and> Template.Name t1 = path \<and> Path t1 = path
         \<and> Template.Name t2 = path \<and> Path t2 = path
         \<and> (\<not> developmentMode e \<longrightarrow> t1 = t2 \<and> jet t1 \<noteq> None \<and> reads e2 = reads e1)
         \<and> (developmentMode e \<longrightarrow> jet t1 \<noteq> jet t2 \<and> reads e1 = reads e @ [path]
               \<and> reads e2 = reads e1 @ [path]))"
proof -
  from Load_ok [OF assms(1)] obtain d1 j1 where
    g1: "GetTemplate parse e path = (d1, Inr j1)" and p1: "p1 = nextAddr d1"
    and e1: "e1 = d1\<lparr>templates := (templates d1)(p1 \<mapsto>
          \<lparr> Template.Name = path, Path = path, Content = [], jet = Some j1 \<rparr>),
          nextAddr := p1 + 1\<rparr>"
    by blast
  from Load_ok [OF assms(2)] obtain d2 j2 where
    g2: "GetTemplate parse e1 path = (d2, Inr j2)" and p2: "p2 = nextAddr d2"
    and e2: "e2 = d2\<lparr>templates := (templates d2)(p2 \<mapsto>
          \<lparr> Template.Name = path, Path = path, Content = [], jet = Some j2 \<rparr>),
          nextAddr := p2 + 1\<rparr>"
    by blast
  show ?thesis
  proof (cases "developmentMode e")
    case False
    from GetTemplate_cached [OF False g1]
    have c1: "cache d1 path = Some j1" and m1: "\<not> developmentMode d1" by simp_all
    from c1 m1 e1 have "cache e1 path = Some j1" "\<not> developmentMode e1" by simp_all
    then have "GetTemplate parse e1 path = (e1, Inr j1)" by (rule GetTemplate_hit[rotated])
    with g2 have d2: "d2 = e1" and j2: "j2 = j1" by simp_all
    from d2 e1 p2 have ne: "p2 = p1 + 1" by simp
    from ne e1 e2 d2 j2 False show ?thesis by simp
  next
    case True
    from GetTemplate_development [OF True g1]
    have a1: "j1 = nextAddr e" "nextAddr d1 = nextAddr e + 1" "reads d1 = reads e @ [path]"
      "developmentMode d1" by simp_all
    from a1 e1 have m1: "developmentMode e1" by simp
    from GetTemplate_development [OF m1 g2]
    have a2: "j2 = nextAddr e1" "nextAddr d2 = nextAddr e1 + 1" "reads d2 = reads e1 @ [path]"
      "templates d2 = templates e1" by simp_all
    from a1 a2 e1 e2 p1 p2 True show ?thesis by simp
  qed
qed

theorem Load_twice_witness:
  "(\<exists>e1 e2. \<not> developmentMode (Engine0 False)
       \<and> Load Parse0 (Engine0 False) ''test.jet'' = (e1, Some 1, None)
       \<and> Load Parse0 e1 ''test.jet'' = (e2, Some 2, None)
       \<and> templates e2 1 = templates e2 2 \<and> templates e2 1 \<noteq> None
       \<and> reads e2 = reads e1)
   \<and> (\<exists>e1 e2. developmentMode (Engine0 True)
       \<and> Load Parse0 (Engine0 True) ''test.jet'' = (e1, Some 1, None)
       \<and> Load Parse0 e1 ''test.jet'' = (e2, Some 3, None)
       \<and> map_option jet (templates e2 1) \<noteq> map_option jet (templates e2 3)
       \<and> reads e1 = reads (Engine0 True) @ [''test.jet'']
       \<and> reads e2 = reads e1 @ [''test.jet''])"
proof -
  let ?p = "''test.jet''"
  have "\<exists>e1 e2. \<not> developmentMode (Engine0 False)
       \<and> Load Parse0 (Engine0 False) ?p = (e1, Some 1, None)
       \<and> Load Parse0 e1 ?p = (e2, Some 2, None)
       \<and> templates e2 1 = templates e2 2 \<and> templates e2 1 \<noteq> None
       \<and> reads e2 = reads e1"
  proof -
    let ?e1 = "fst (Load Parse0 (Engine0 False) ?p)"
    let ?e2 = "fst (Load Parse0 ?e1 ?p)"
    have m: "\<not> developmentMode (Engine0 False)" by (simp add: Engine0_mode)
    have l1: "Load Parse0 (Engine0 False) ?p = (?e1, Some 1, None)"
      by (simp add: prod_eq_iff Load_Engine0_first)
    have l2: "Load Parse0 ?e1 ?p = (?e2, Some 2, None)"
      by (simp add: prod_eq_iff Load_Engine0_second)
    from Load_twice [OF l1 l2] m
    have "templates ?e2 1 = templates ?e2 2 \<and> templates ?e2 1 \<noteq> None \<and> reads ?e2 = reads ?e1"
      by auto
    with m l1 l2 show ?thesis by blast
  qed
  moreover
  have "\<exists>e1 e2. developmentMode (Engine0 True)
       \<and> Load Parse0 (Engine0 True) ?p = (e1, Some 1, None)
       \<and> Load Parse0 e1 ?p = (e2, Some 3, None)
       \<and> map_option jet (templates e2 1) \<noteq> map_option jet (templates e2 3)
       \<and> reads e1 = reads (Engine0 True) @ [?p]
       \<and> reads e2 = reads e1 @ [?p]"
  proof -
    let ?e1 = "fst (Load Parse0 (Engine0 True) ?p)"
    let ?e2 = "fst (Load Parse0 ?e1 ?p)"
    have m: "developmentMode (Engine0 True)" by (simp add: Engine0_mode)
    have l1: "Load Parse0 (Engine0 True) ?p = (?e1, Some 1, None)"
      by (simp add: prod_eq_iff Load_Engine0_first)
    have l2: "Load Parse0 ?e1 ?p = (?e2, Some 3, None)"
      by (simp add: prod_eq_iff Load_Engine0_second)
    from Load_twice [OF l1 l2] m
    have "map_option jet (templates ?e2 1) \<noteq> map_option jet (templates ?e2 3)
       \<and> reads ?e1 = reads (Engine0 True) @ [?p] \<and> reads ?e2 = reads ?e1 @ [?p]"
      by auto
    with m l1 l2 show ?thesis by blast
  qed
  ultimately show ?thesis by blast
qed

text \<open>
  C10. \<^verbatim>\<open>Render\<close> with a nil template, or with a template whose compiled program
  is nil, returns no output text and the error \<open>invalid template\<close>, which carries no
  template path; it does not panic, whatever the data.
\<close>

theorem Render_invalid_template:
  assumes "tmpl = None \<or> (\<exists>t. tmpl = Some t \<and> jet t = None)"
  shows "Render Execute tmpl data = ([], Some (ErrorString ''invalid template''))"
  using assms by (auto simp: Render_def)

theorem Render_invalid_template_witness:
  "Render (\<lambda>j d. Inr ''out'') None (VString ''data'')
     = ([], Some (ErrorString ''invalid template''))
   \<and> jet \<lparr> Template.Name = ''test.jet'', Path = ''test.jet'', Content = [], jet = None \<rparr> = None
   \<and> Render (\<lambda>j d. Inr ''out'')
       (Some \<lparr> Template.Name = ''test.jet'', Path = ''test.jet'', Content = [], jet = None \<rparr>)
       (VString ''data'')
     = ([], Some (ErrorString ''invalid template''))"
proof -
  let ?t = "\<lparr> Template.Name = ''test.jet'', Path = ''test.jet'', Content = [], jet = None \<rparr>"
  have a: "(None :: Template option) = None \<or> (\<exists>t. None = Some t \<and> jet t = None)" by simp
  have b: "Some ?t = None \<or> (\<exists>t. Some ?t = Some t \<and> jet t = None)" by simp
  from Render_invalid_template [OF a, of "\<lambda>j d. Inr ''out''" "VString ''data''"]
    Render_invalid_template [OF b, of "\<lambda>j d. Inr ''out''" "VString ''data''"]
  show ?thesis by simp
qed

end
